theory Spec2Isabelle
  imports Complex_Main "HOL-Library.Numeral_Type"
begin

section \<open>Fixed-size matrices\<close>

text \<open>
  The filter of \<^verbatim>\<open>sno/kalman_filter.h\<close> works on \<^verbatim>\<open>Eigen::Matrix<double, R, C>\<close>
  values whose dimensions are template arguments. A matrix is modelled as a function from
  a row index and a column index to its coefficient; the index types are finite types, so
  that a dimension mismatch is a type error here exactly where it is a compile error in
  the source. The numeral types \<^typ>\<open>1\<close> and \<^typ>\<open>2\<close> are the index types of the
  dimensions 1 and 2.

  Coefficients are real numbers: the model is the filter in exact arithmetic. Rounding,
  infinities and NaN of \<^verbatim>\<open>double\<close> are outside of it.
\<close>

type_synonym ('r, 'c) mat = "'r \<Rightarrow> 'c \<Rightarrow> real"

definition mat_mul :: "('r, 'k::finite) mat \<Rightarrow> ('k, 'c) mat \<Rightarrow> ('r, 'c) mat" where
  "mat_mul A B = (\<lambda>i j. \<Sum>k\<in>UNIV. A i k * B k j)"

definition mat_add :: "('r, 'c) mat \<Rightarrow> ('r, 'c) mat \<Rightarrow> ('r, 'c) mat" where
  "mat_add A B = (\<lambda>i j. A i j + B i j)"

definition mat_sub :: "('r, 'c) mat \<Rightarrow> ('r, 'c) mat \<Rightarrow> ('r, 'c) mat" where
  "mat_sub A B = (\<lambda>i j. A i j - B i j)"

definition transpose_mat :: "('r, 'c) mat \<Rightarrow> ('c, 'r) mat" where
  "transpose_mat A = (\<lambda>i j. A j i)"

definition Identity :: "('n, 'n) mat" where
  "Identity = (\<lambda>i j. if i = j then 1 else 0)"

definition Zero :: "('r, 'c) mat" where
  "Zero = (\<lambda>i j. 0)"

text \<open>\<^verbatim>\<open>Eigen::Matrix<double, 1, 1>(z)\<close>: the 1x1 matrix holding the scalar \<open>z\<close>.\<close>

definition Matrix_1x1 :: "real \<Rightarrow> (1, 1) mat" where
  "Matrix_1x1 z = (\<lambda>i j. z)"

text \<open>A 2x2 matrix and a column of two coefficients, written by rows (for examples).\<close>

definition Matrix_2x2 :: "real \<Rightarrow> real \<Rightarrow> real \<Rightarrow> real \<Rightarrow> (2, 2) mat" where
  "Matrix_2x2 a b c d = (\<lambda>i j. if i = 0 then (if j = 0 then a else b) else (if j = 0 then c else d))"

definition Matrix_2x1 :: "real \<Rightarrow> real \<Rightarrow> (2, 1) mat" where
  "Matrix_2x1 a b = (\<lambda>i j. if i = 0 then a else b)"

definition Matrix_1x2 :: "real \<Rightarrow> real \<Rightarrow> (1, 2) mat" where
  "Matrix_1x2 a b = (\<lambda>i j. if j = 0 then a else b)"

subsection \<open>The inverse\<close>

text \<open>
  \<^verbatim>\<open>S.inverse()\<close> is Eigen's, not this repository's: the operations below take it as a
  parameter \<open>minv\<close>. Eigen promises the inverse of an invertible matrix and leaves the
  result for a singular one undefined; it raises no exception. \<open>computes_inverse\<close> is
  that contract: whenever a matrix has an inverse, \<open>minv\<close> returns it. Nothing is
  assumed about \<open>minv\<close> on a singular matrix.
\<close>

definition is_inverse :: "('u::finite, 'u) mat \<Rightarrow> ('u, 'u) mat \<Rightarrow> bool" where
  "is_inverse S T \<longleftrightarrow> mat_mul S T = Identity \<and> mat_mul T S = Identity"

definition computes_inverse :: "(('u::finite, 'u) mat \<Rightarrow> ('u, 'u) mat) \<Rightarrow> bool" where
  "computes_inverse minv \<longleftrightarrow> (\<forall>S T. is_inverse S T \<longrightarrow> minv S = T)"

text \<open>
  Eigen's inverse of a 1x1 matrix is the reciprocal of its coefficient. At a zero
  coefficient HOL's division gives 0 where IEEE arithmetic gives an infinity; the
  theorems below use \<open>inverse_1x1\<close> as an instance of \<open>minv\<close> and rely on its value
  only at invertible matrices.
\<close>

definition inverse_1x1 :: "(1, 1) mat \<Rightarrow> (1, 1) mat" where
  "inverse_1x1 S = (\<lambda>i j. 1 / S i j)"

text \<open>
  Eigen's inverse of a 2x2 matrix: the cofactors, each multiplied by the reciprocal of
  the determinant. As for \<open>inverse_1x1\<close>, its value is relied on only at invertible
  matrices.
\<close>

definition inverse_2x2 :: "(2, 2) mat \<Rightarrow> (2, 2) mat" where
  "inverse_2x2 S =
     (let invdet = 1 / (S 0 0 * S 1 1 - S 1 0 * S 0 1)
      in Matrix_2x2 (S 1 1 * invdet) (- S 0 1 * invdet) (- S 1 0 * invdet) (S 0 0 * invdet))"

subsection \<open>Symmetric and positive semi-definite matrices\<close>

definition symmetric :: "('n, 'n) mat \<Rightarrow> bool" where
  "symmetric P \<longleftrightarrow> transpose_mat P = P"

definition quadratic_form :: "('n::finite, 'n) mat \<Rightarrow> ('n, 1) mat \<Rightarrow> real" where
  "quadratic_form P v = mat_mul (transpose_mat v) (mat_mul P v) 1 1"

definition positive_semidefinite :: "('n::finite, 'n) mat \<Rightarrow> bool" where
  "positive_semidefinite P \<longleftrightarrow> (\<forall>v. 0 \<le> quadratic_form P v)"

section \<open>The exceptions of \<^verbatim>\<open>sno/so_exception.h\<close>\<close>

text \<open>
  The repository's exception classes, each carrying its \<^verbatim>\<open>what\<close> message. An
  operation returns \<open>Inl\<close> of an exception where the source throws and \<open>Inr\<close> of the
  new filter where it returns.
\<close>

datatype so_exception =
    runtime_error string
  | logic_error string
  | Invalid_argument string
  | Read_error string
  | Write_error string

section \<open>The Kalman filter\<close>

text \<open>
  \<^verbatim>\<open>template<int N, int M = N> class Kalman_filter\<close>: the private members, with the
  dimensions \<open>N\<close> and \<open>M\<close> as the index types \<open>'n\<close> and \<open>'m\<close>. \<^verbatim>\<open>m_A\<close> and
  \<^verbatim>\<open>m_B\<close> are \<^verbatim>\<open>std::function\<close>s of the time step.
\<close>

record ('n, 'm) Kalman_filter =
  m_A :: "real \<Rightarrow> ('n, 'n) mat"
  m_B :: "real \<Rightarrow> ('n, 'm) mat"
  m_Q :: "('n, 'n) mat"
  m_x :: "('n, 1) mat"
  m_P :: "('n, 'n) mat"
  m_last_timestamp :: real

text \<open>The constructor wraps the constant matrices \<open>A\<close> and \<open>B\<close> into constant functions.\<close>

definition Kalman_filter ::
  "('n, 'n) mat \<Rightarrow> ('n, 'm) mat \<Rightarrow> ('n, 'n) mat \<Rightarrow> ('n, 1) mat \<Rightarrow> ('n, 'n) mat \<Rightarrow> real
    \<Rightarrow> ('n, 'm) Kalman_filter" where
  "Kalman_filter A B Q x0 P0 t0 =
     \<lparr>m_A = (\<lambda>dt. A), m_B = (\<lambda>dt. B), m_Q = Q, m_x = x0, m_P = P0, m_last_timestamp = t0\<rparr>"

text \<open>
  \<^verbatim>\<open>void Predict(const MatrixM1& u, const double t)\<close>. The body has no \<^verbatim>\<open>throw\<close>
  and fixed-size Eigen arithmetic raises nothing, so the result is always \<open>Inr\<close>.
\<close>

definition Predict ::
  "('m::finite, 1) mat \<Rightarrow> real \<Rightarrow> ('n::finite, 'm) Kalman_filter
    \<Rightarrow> so_exception + ('n, 'm) Kalman_filter" where
  "Predict u t kf =
     (let dt = t - m_last_timestamp kf;
          kf = kf\<lparr>m_last_timestamp := t\<rparr>;
          A = m_A kf dt;
          B = m_B kf dt;
          kf = kf\<lparr>m_x := mat_add (mat_mul A (m_x kf)) (mat_mul B u)\<rparr>;
          kf = kf\<lparr>m_P := mat_add (mat_mul (mat_mul A (m_P kf)) (transpose_mat A)) (m_Q kf)\<rparr>
      in Inr kf)"

text \<open>\<^verbatim>\<open>void Predict(const double t)\<close>: the overload with a zero control input.\<close>

definition Predict_t ::
  "real \<Rightarrow> ('n::finite, 'm::finite) Kalman_filter \<Rightarrow> so_exception + ('n, 'm) Kalman_filter" where
  "Predict_t t kf = (let u = Zero in Predict u t kf)"

text \<open>
  \<^verbatim>\<open>template<int U> void Update(z, H, R)\<close>, with the observation dimension \<open>U\<close> as
  the index type \<open>'u\<close> and Eigen's inverse as \<open>minv\<close>. The body has no \<^verbatim>\<open>throw\<close>
  and tests nothing about \<open>S\<close>: the result is always \<open>Inr\<close>.
\<close>

definition Update ::
  "(('u::finite, 'u) mat \<Rightarrow> ('u, 'u) mat) \<Rightarrow> ('u, 1) mat \<Rightarrow> ('u, 'n::finite) mat \<Rightarrow> ('u, 'u) mat
    \<Rightarrow> ('n, 'm) Kalman_filter \<Rightarrow> so_exception + ('n, 'm) Kalman_filter" where
  "Update minv z H R kf =
     (let y = mat_sub z (mat_mul H (m_x kf));
          S = mat_add (mat_mul (mat_mul H (m_P kf)) (transpose_mat H)) R;
          K = mat_mul (mat_mul (m_P kf) (transpose_mat H)) (minv S);
          kf = kf\<lparr>m_x := mat_add (m_x kf) (mat_mul K y)\<rparr>;
          kf = kf\<lparr>m_P := mat_mul (mat_sub Identity (mat_mul K H)) (m_P kf)\<rparr>
      in Inr kf)"

text \<open>
  \<^verbatim>\<open>void Update(const double z, const Matrix1N& H, const double R)\<close>: the scalar
  overload, which wraps \<open>z\<close> and \<open>R\<close> into 1x1 matrices and calls the generic one.
\<close>

definition Update_scalar ::
  "((1, 1) mat \<Rightarrow> (1, 1) mat) \<Rightarrow> real \<Rightarrow> (1, 'n::finite) mat \<Rightarrow> real
    \<Rightarrow> ('n, 'm) Kalman_filter \<Rightarrow> so_exception + ('n, 'm) Kalman_filter" where
  "Update_scalar minv z H R kf = Update minv (Matrix_1x1 z) H (Matrix_1x1 R) kf"

definition Get_state_estimate :: "('n, 'm) Kalman_filter \<Rightarrow> ('n, 1) mat" where
  "Get_state_estimate kf = m_x kf"

definition Get_error_covariance :: "('n, 'm) Kalman_filter \<Rightarrow> ('n, 'n) mat" where
  "Get_error_covariance kf = m_P kf"

text \<open>
  \<^verbatim>\<open>void Set_state_estimate(const MatrixNN& x) { m_x = x; }\<close>: the parameter is an
  NxN matrix and \<^verbatim>\<open>m_x\<close> is Nx1. Eigen rejects the assignment at compile time unless
  both types have the same size, which is the case \<open>N = 1\<close> only; so the definition
  here is typed for the filters with \<open>N = 1\<close> only.
\<close>

definition Set_state_estimate :: "(1, 1) mat \<Rightarrow> (1, 'm) Kalman_filter \<Rightarrow> (1, 'm) Kalman_filter" where
  "Set_state_estimate x kf = kf\<lparr>m_x := x\<rparr>"

definition Set_error_covariance :: "('n, 'n) mat \<Rightarrow> ('n, 'm) Kalman_filter \<Rightarrow> ('n, 'm) Kalman_filter" where
  "Set_error_covariance p kf = kf\<lparr>m_P := p\<rparr>"

subsection \<open>The local variables of \<^verbatim>\<open>Update\<close>\<close>

text \<open>The innovation \<open>y\<close>, the innovation covariance \<open>S\<close> and the gain \<open>K\<close> as \<^verbatim>\<open>Update\<close> computes them.\<close>

definition innovation :: "('u, 1) mat \<Rightarrow> ('u, 'n::finite) mat \<Rightarrow> ('n, 'm) Kalman_filter \<Rightarrow> ('u, 1) mat" where
  "innovation z H kf = mat_sub z (mat_mul H (m_x kf))"

definition innovation_covariance ::
  "('u, 'n::finite) mat \<Rightarrow> ('u, 'u) mat \<Rightarrow> ('n, 'm) Kalman_filter \<Rightarrow> ('u, 'u) mat" where
  "innovation_covariance H R kf = mat_add (mat_mul (mat_mul H (m_P kf)) (transpose_mat H)) R"

definition kalman_gain ::
  "(('u::finite, 'u) mat \<Rightarrow> ('u, 'u) mat) \<Rightarrow> ('u, 'n::finite) mat \<Rightarrow> ('u, 'u) mat
    \<Rightarrow> ('n, 'm) Kalman_filter \<Rightarrow> ('n, 'u) mat" where
  "kalman_gain minv H R kf =
     mat_mul (mat_mul (m_P kf) (transpose_mat H)) (minv (innovation_covariance H R kf))"

subsection \<open>The covariance invariant\<close>

text \<open>
  What the specification requires of the covariances a filter holds: the error covariance
  \<open>P\<close> and the process noise covariance \<open>Q\<close> are symmetric and positive
  semi-definite.
\<close>

definition covariance_invariant :: "('n::finite, 'm) Kalman_filter \<Rightarrow> bool" where
  "covariance_invariant kf \<longleftrightarrow>
     symmetric (m_P kf) \<and> positive_semidefinite (m_P kf) \<and>
     symmetric (m_Q kf) \<and> positive_semidefinite (m_Q kf)"

subsection \<open>Filters for the examples\<close>

text \<open>
  The scalar filter of the specification's scenario: \<open>N = 1\<close>, \<open>A = 1\<close>, \<open>B = 0\<close>,
  \<open>Q = 0.01\<close>, \<open>x0 = 0\<close>, \<open>P0 = 1\<close>, \<open>t0 = 0\<close>; and the state the scenario gives
  for it after \<^verbatim>\<open>Predict(1)\<close>.
\<close>

definition scalar_filter :: "(1, 1) Kalman_filter" where
  "scalar_filter =
     Kalman_filter (Matrix_1x1 1) (Matrix_1x1 0) (Matrix_1x1 0.01) (Matrix_1x1 0) (Matrix_1x1 1) 0"

definition scalar_filter_predicted :: "(1, 1) Kalman_filter" where
  "scalar_filter_predicted =
     scalar_filter\<lparr>m_last_timestamp := 1, m_x := Matrix_1x1 0, m_P := Matrix_1x1 1.01\<rparr>"

text \<open>
  A filter with \<open>N = 2\<close> and \<open>M = 1\<close>: position and velocity with a unit time step,
  an acceleration input, \<open>x0 = (0, 1)\<close>, \<open>P0 = [[2, 1], [1, 2]]\<close>, \<open>Q = 0.01 I\<close>.
\<close>

definition tracking_filter :: "(2, 1) Kalman_filter" where
  "tracking_filter =
     Kalman_filter (Matrix_2x2 1 1 0 1) (Matrix_2x1 (1 / 2) 1) (Matrix_2x2 0.01 0 0 0.01)
       (Matrix_2x1 0 1) (Matrix_2x2 2 1 1 2) 0"

text \<open>The same filter with the model \<open>A = I\<close>, \<open>B = 0\<close>: a state that does not move.\<close>

definition resting_filter :: "(2, 1) Kalman_filter" where
  "resting_filter =
     Kalman_filter Identity Zero (Matrix_2x2 0.01 0 0 0.01) (Matrix_2x1 0 1) (Matrix_2x2 2 1 1 2) 0"

section \<open>Matrix algebra\<close>

lemma UNIV_1: "(UNIV :: 1 set) = {1}"
  by (auto simp: num1_eq_iff)

lemma UNIV_2: "(UNIV :: 2 set) = {0, 1}"
proof -
  have "card {0, 1 :: 2} = card (UNIV :: 2 set)"
    by simp
  then show ?thesis
    by (metis card_subset_eq finite subset_UNIV)
qed

lemma forall_1: "(\<forall>i::1. P i) \<longleftrightarrow> P 1"
  by (metis num1_eq1)

lemma forall_2: "(\<forall>i::2. P i) \<longleftrightarrow> P 0 \<and> P 1"
  by (metis UNIV_2 UNIV_I insertE singletonD)

lemma mat_mul_assoc: "mat_mul (mat_mul A B) C = mat_mul A (mat_mul B C)"
proof (intro ext)
  fix i j
  have "(\<Sum>k\<in>UNIV. (\<Sum>l\<in>UNIV. A i l * B l k) * C k j) = (\<Sum>k\<in>UNIV. \<Sum>l\<in>UNIV. A i l * (B l k * C k j))"
    by (simp add: sum_distrib_right mult.assoc)
  also have "\<dots> = (\<Sum>l\<in>UNIV. \<Sum>k\<in>UNIV. A i l * (B l k * C k j))"
    by (rule sum.swap)
  also have "\<dots> = (\<Sum>l\<in>UNIV. A i l * (\<Sum>k\<in>UNIV. B l k * C k j))"
    by (simp add: sum_distrib_left)
  finally show "mat_mul (mat_mul A B) C i j = mat_mul A (mat_mul B C) i j"
    by (simp add: mat_mul_def)
qed

lemma mat_mul_add_right: "mat_mul A (mat_add B C) = mat_add (mat_mul A B) (mat_mul A C)"
  by (simp add: mat_mul_def mat_add_def fun_eq_iff sum.distrib distrib_left)

lemma mat_mul_add_left: "mat_mul (mat_add A B) C = mat_add (mat_mul A C) (mat_mul B C)"
  by (simp add: mat_mul_def mat_add_def fun_eq_iff sum.distrib distrib_right)

lemma mat_mul_sub_right: "mat_mul A (mat_sub B C) = mat_sub (mat_mul A B) (mat_mul A C)"
  by (simp add: mat_mul_def mat_sub_def fun_eq_iff sum_subtractf right_diff_distrib)

lemma mat_mul_sub_left: "mat_mul (mat_sub A B) C = mat_sub (mat_mul A C) (mat_mul B C)"
  by (simp add: mat_mul_def mat_sub_def fun_eq_iff sum_subtractf left_diff_distrib)

lemma mat_mul_Identity_left: "mat_mul Identity A = A"
  by (simp add: mat_mul_def Identity_def fun_eq_iff if_distrib [of "\<lambda>c. c * _"] sum.delta' cong: if_cong)

lemma mat_mul_Identity_right: "mat_mul A Identity = A"
  by (simp add: mat_mul_def Identity_def fun_eq_iff if_distrib [of "\<lambda>c. _ * c"] sum.delta cong: if_cong)

lemma mat_mul_Zero_right: "mat_mul A Zero = Zero"
  by (simp add: mat_mul_def Zero_def)

lemma mat_mul_Zero_left: "mat_mul Zero A = Zero"
  by (simp add: mat_mul_def Zero_def)

lemma mat_add_Zero_right: "mat_add A Zero = A"
  by (simp add: mat_add_def Zero_def)

lemma mat_add_eq_left_iff: "mat_add A B = A \<longleftrightarrow> B = Zero"
  by (auto simp: mat_add_def Zero_def fun_eq_iff)

lemma mat_sub_self: "mat_sub A A = Zero"
  by (simp add: mat_sub_def Zero_def)

lemma transpose_mat_mul: "transpose_mat (mat_mul A B) = mat_mul (transpose_mat B) (transpose_mat A)"
  by (simp add: transpose_mat_def mat_mul_def mult.commute)

lemma transpose_mat_add: "transpose_mat (mat_add A B) = mat_add (transpose_mat A) (transpose_mat B)"
  by (simp add: transpose_mat_def mat_add_def)

lemma transpose_mat_sub: "transpose_mat (mat_sub A B) = mat_sub (transpose_mat A) (transpose_mat B)"
  by (simp add: transpose_mat_def mat_sub_def)

lemma transpose_mat_Identity: "transpose_mat Identity = Identity"
  by (auto simp: transpose_mat_def Identity_def fun_eq_iff)

lemma transpose_mat_twice: "transpose_mat (transpose_mat A) = A"
  by (simp add: transpose_mat_def)

lemma Matrix_1x1_coeff: "Matrix_1x1 (Z 1 1) = Z"
  by (simp add: Matrix_1x1_def fun_eq_iff forall_1)

lemma Zero_not_invertible: "\<not> is_inverse Zero T"
  by (simp add: is_inverse_def mat_mul_def Zero_def Identity_def fun_eq_iff)

lemma is_inverse_unique: "is_inverse S T \<Longrightarrow> is_inverse S T' \<Longrightarrow> T = T'"
proof -
  assume a: "is_inverse S T" and b: "is_inverse S T'"
  have "T = mat_mul T (mat_mul S T')"
    using b by (simp add: is_inverse_def mat_mul_Identity_right)
  also have "\<dots> = mat_mul (mat_mul T S) T'"
    by (simp add: mat_mul_assoc)
  also have "\<dots> = T'"
    using a by (simp add: is_inverse_def mat_mul_Identity_left)
  finally show ?thesis .
qed

lemma computes_inverse_exists: "\<exists>minv :: ('u::finite, 'u) mat \<Rightarrow> ('u, 'u) mat. computes_inverse minv"
proof
  show "computes_inverse (\<lambda>S :: ('u, 'u) mat. THE T. is_inverse S T)"
    unfolding computes_inverse_def
    by (auto intro: the_equality is_inverse_unique)
qed

lemma computes_inverse_1x1: "computes_inverse inverse_1x1"
  unfolding computes_inverse_def
proof (intro allI impI)
  fix S T :: "(1, 1) mat"
  assume "is_inverse S T"
  then have "S 1 1 * T 1 1 = 1"
    by (simp add: is_inverse_def mat_mul_def Identity_def UNIV_1 fun_eq_iff forall_1)
  moreover from this have "S 1 1 \<noteq> 0"
    by auto
  ultimately have "T 1 1 = 1 / S 1 1"
    by (simp add: field_simps)
  then show "inverse_1x1 S = T"
    by (simp add: inverse_1x1_def fun_eq_iff forall_1)
qed

lemma joseph_form:
  fixes P :: "('n::finite, 'n) mat" and H :: "('u::finite, 'n) mat"
  assumes TS: "mat_mul T (mat_add (mat_mul (mat_mul H P) (transpose_mat H)) R) = Identity"
    and K: "K = mat_mul (mat_mul P (transpose_mat H)) T"
    and X: "X = mat_sub Identity (mat_mul K H)"
  shows "mat_mul X P =
         mat_add (mat_mul (mat_mul X P) (transpose_mat X)) (mat_mul (mat_mul K R) (transpose_mat K))"
proof -
  let ?S = "mat_add (mat_mul (mat_mul H P) (transpose_mat H)) R"
  let ?Ht = "transpose_mat H" and ?Kt = "transpose_mat K"
  let ?a = "mat_mul (mat_mul P ?Ht) ?Kt"
  let ?b = "mat_mul (mat_mul K (mat_mul (mat_mul H P) ?Ht)) ?Kt"
  let ?c = "mat_mul (mat_mul K R) ?Kt"
  have "mat_mul K ?S = mat_mul (mat_mul P ?Ht) (mat_mul T ?S)"
    unfolding K by (rule mat_mul_assoc)
  then have KS: "mat_mul K ?S = mat_mul P ?Ht"
    by (simp only: TS mat_mul_Identity_right)
  have "?a = mat_mul (mat_mul K ?S) ?Kt"
    by (simp only: KS)
  also have "\<dots> = mat_add ?b ?c"
    by (simp only: mat_mul_add_right mat_mul_add_left)
  finally have a: "?a = mat_add ?b ?c" .
  have Xt: "transpose_mat X = mat_sub Identity (mat_mul ?Ht ?Kt)"
    by (simp only: X transpose_mat_sub transpose_mat_Identity transpose_mat_mul)
  have XP: "mat_mul X P = mat_sub P (mat_mul (mat_mul K H) P)"
    by (simp only: X mat_mul_sub_left mat_mul_Identity_left)
  have "mat_mul (mat_mul X P) (transpose_mat X) =
        mat_sub (mat_mul X P) (mat_mul (mat_mul X P) (mat_mul ?Ht ?Kt))"
    by (simp only: Xt mat_mul_sub_right mat_mul_Identity_right)
  also have "mat_mul (mat_mul X P) (mat_mul ?Ht ?Kt) = mat_sub ?a ?b"
    by (simp only: XP mat_mul_sub_left mat_mul_assoc)
  finally have "mat_mul (mat_mul X P) (transpose_mat X) = mat_sub (mat_mul X P) (mat_sub ?a ?b)" .
  then show ?thesis
    by (simp add: a mat_add_def mat_sub_def fun_eq_iff)
qed

lemma symmetric_congruence:
  "symmetric P \<Longrightarrow> symmetric (mat_mul (mat_mul X P) (transpose_mat X))"
  by (simp add: symmetric_def transpose_mat_mul transpose_mat_twice mat_mul_assoc)

lemma symmetric_add: "symmetric A \<Longrightarrow> symmetric B \<Longrightarrow> symmetric (mat_add A B)"
  by (simp add: symmetric_def transpose_mat_add)

lemma quadratic_form_congruence:
  "quadratic_form (mat_mul (mat_mul X P) (transpose_mat X)) v = quadratic_form P (mat_mul (transpose_mat X) v)"
  by (simp add: quadratic_form_def transpose_mat_mul transpose_mat_twice mat_mul_assoc)

lemma quadratic_form_add:
  "quadratic_form (mat_add A B) v = quadratic_form A v + quadratic_form B v"
  unfolding quadratic_form_def mat_mul_add_left mat_mul_add_right
  by (simp add: mat_add_def)

lemma positive_semidefinite_congruence:
  "positive_semidefinite P \<Longrightarrow> positive_semidefinite (mat_mul (mat_mul X P) (transpose_mat X))"
  by (simp add: positive_semidefinite_def quadratic_form_congruence)

lemma positive_semidefinite_add:
  "positive_semidefinite A \<Longrightarrow> positive_semidefinite B \<Longrightarrow> positive_semidefinite (mat_add A B)"
  by (simp add: positive_semidefinite_def quadratic_form_add)


section \<open>The operations, unfolded\<close>

lemma Update_eq:
  "Update minv z H R kf =
     Inr (kf\<lparr>m_x := mat_add (m_x kf) (mat_mul (kalman_gain minv H R kf) (innovation z H kf)),
             m_P := mat_mul (mat_sub Identity (mat_mul (kalman_gain minv H R kf) H)) (m_P kf)\<rparr>)"
  by (simp add: Update_def kalman_gain_def innovation_def innovation_covariance_def Let_def)

lemma Predict_eq:
  "Predict u t kf =
     Inr (kf\<lparr>m_last_timestamp := t,
             m_x := mat_add (mat_mul (m_A kf (t - m_last_timestamp kf)) (m_x kf))
                            (mat_mul (m_B kf (t - m_last_timestamp kf)) u),
             m_P := mat_add (mat_mul (mat_mul (m_A kf (t - m_last_timestamp kf)) (m_P kf))
                                     (transpose_mat (m_A kf (t - m_last_timestamp kf))))
                            (m_Q kf)\<rparr>)"
  by (simp add: Predict_def Let_def)


lemma Predict_covariance:
  assumes "symmetric (m_P kf)" "positive_semidefinite (m_P kf)"
    and "symmetric (m_Q kf)" "positive_semidefinite (m_Q kf)"
    and "Predict u t kf = Inr kf'"
  shows "symmetric (m_P kf') \<and> positive_semidefinite (m_P kf') \<and> m_Q kf' = m_Q kf"
proof -
  let ?A = "m_A kf (t - m_last_timestamp kf)"
  let ?P = "mat_add (mat_mul (mat_mul ?A (m_P kf)) (transpose_mat ?A)) (m_Q kf)"
  have "m_P kf' = ?P" "m_Q kf' = m_Q kf"
    using assms(5) by (auto simp: Predict_eq)
  moreover have "symmetric ?P"
    by (intro symmetric_add symmetric_congruence assms)
  moreover have "positive_semidefinite ?P"
    by (intro positive_semidefinite_add positive_semidefinite_congruence assms)
  ultimately show ?thesis
    by simp
qed

lemma Update_covariance:
  fixes H :: "('u::finite, 'n::finite) mat"
  assumes P: "symmetric (m_P kf)" "positive_semidefinite (m_P kf)"
    and R: "symmetric R" "positive_semidefinite R"
    and inv: "is_inverse (innovation_covariance H R kf) (minv (innovation_covariance H R kf))"
    and upd: "Update minv z H R kf = Inr kf'"
  shows "symmetric (m_P kf') \<and> positive_semidefinite (m_P kf') \<and> m_Q kf' = m_Q kf"
proof -
  let ?K = "kalman_gain minv H R kf"
  let ?X = "mat_sub Identity (mat_mul ?K H)"
  let ?J = "mat_add (mat_mul (mat_mul ?X (m_P kf)) (transpose_mat ?X))
                    (mat_mul (mat_mul ?K R) (transpose_mat ?K))"
  have "mat_mul ?X (m_P kf) = ?J"
    using inv
    by (intro joseph_form [where T = "minv (innovation_covariance H R kf)"])
       (simp_all add: is_inverse_def innovation_covariance_def kalman_gain_def)
  moreover have "m_P kf' = mat_mul ?X (m_P kf)" "m_Q kf' = m_Q kf"
    using upd by (auto simp: Update_eq)
  moreover have "symmetric ?J"
    by (intro symmetric_add symmetric_congruence P R)
  moreover have "positive_semidefinite ?J"
    by (intro positive_semidefinite_add positive_semidefinite_congruence P R)
  ultimately show ?thesis
    by simp
qed

section \<open>Evaluating concrete matrices\<close>

lemmas eval_simps = Matrix_1x1_def Matrix_2x2_def Matrix_2x1_def Matrix_1x2_def
  mat_mul_def mat_add_def mat_sub_def transpose_mat_def Identity_def Zero_def
  UNIV_1 UNIV_2 fun_eq_iff forall_1 forall_2

lemma quadratic_form_2x2:
  "quadratic_form (Matrix_2x2 a b c d) v = a * (v 0 1)\<^sup>2 + (b + c) * (v 0 1 * v 1 1) + d * (v 1 1)\<^sup>2"
  by (simp add: quadratic_form_def eval_simps power2_eq_square algebra_simps)

lemma quadratic_form_1x1: "quadratic_form (Matrix_1x1 a) v = a * (v 1 1)\<^sup>2"
  by (simp add: quadratic_form_def eval_simps power2_eq_square)

lemma positive_semidefinite_P0: "positive_semidefinite (Matrix_2x2 2 1 1 2)"
  unfolding positive_semidefinite_def
proof
  fix v :: "(2, 1) mat"
  have "quadratic_form (Matrix_2x2 2 1 1 2) v = (v 0 1)\<^sup>2 + (v 1 1)\<^sup>2 + (v 0 1 + v 1 1)\<^sup>2"
    by (simp add: quadratic_form_2x2 power2_eq_square algebra_simps)
  then show "0 \<le> quadratic_form (Matrix_2x2 2 1 1 2) v"
    by simp
qed

lemma positive_semidefinite_Q0: "positive_semidefinite (Matrix_2x2 0.01 0 0 0.01)"
  unfolding positive_semidefinite_def quadratic_form_2x2
  by simp

lemma positive_semidefinite_R0: "positive_semidefinite (Matrix_1x1 1)"
  unfolding positive_semidefinite_def quadratic_form_1x1
  by simp


lemma positive_semidefinite_unit_2x2: "positive_semidefinite (Matrix_2x2 1 0 0 1)"
  unfolding positive_semidefinite_def quadratic_form_2x2
  by simp

lemma is_inverse_2x2:
  assumes "S 0 0 * S 1 1 - S 1 0 * S 0 1 \<noteq> 0"
  shows "is_inverse S (inverse_2x2 S)"
proof -
  define d where "d = S 0 0 * S 1 1 - S 1 0 * S 0 1"
  define r where "r = 1 / d"
  have "d * r = 1"
    using assms by (simp add: d_def r_def)
  then have 1: "S 0 0 * S 1 1 * r - S 1 0 * S 0 1 * r = 1"
    by (simp add: d_def left_diff_distrib)
  have inv: "inverse_2x2 S = Matrix_2x2 (S 1 1 * r) (- S 0 1 * r) (- S 1 0 * r) (S 0 0 * r)"
    by (simp add: inverse_2x2_def r_def d_def)
  show ?thesis
    unfolding inv is_inverse_def using 1
    by (simp add: eval_simps algebra_simps)
qed

section \<open>A singular innovation covariance\<close>

text \<open>
  Two observations of the same coordinate without noise, \<open>H = [[1, 0], [1, 0]]\<close> and
  \<open>R = 0\<close>, give the tracking filter the singular \<open>S = [[2, 2], [2, 2]]\<close>. An inverse
  routine that honours its contract may return anything for it; when it returns the
  identity, \<^verbatim>\<open>Update\<close> moves the state from \<open>(0, 1)\<close> to \<open>(4, 3)\<close> and makes the
  covariance \<open>[[-6, -3], [-3, 0]]\<close>.
\<close>

lemma singular_2x2: "\<not> is_inverse (Matrix_2x2 2 2 2 2) T"
proof
  assume "is_inverse (Matrix_2x2 2 2 2 2) T"
  then have "mat_mul (Matrix_2x2 2 2 2 2) T = Identity"
    by (simp add: is_inverse_def)
  then have "mat_mul (Matrix_2x2 2 2 2 2) T 0 0 = 1" "mat_mul (Matrix_2x2 2 2 2 2) T 1 0 = 0"
    by (simp_all add: Identity_def)
  then show False
    by (simp add: mat_mul_def Matrix_2x2_def UNIV_2)
qed

lemma Update_singular_can_change_state:
  "\<exists>minv :: (2, 2) mat \<Rightarrow> (2, 2) mat. computes_inverse minv \<and>
     innovation_covariance (Matrix_2x2 1 0 1 0) Zero tracking_filter = Matrix_2x2 2 2 2 2 \<and>
     (\<forall>T. \<not> is_inverse (Matrix_2x2 2 2 2 2) T) \<and>
     Update minv (Matrix_2x1 1 1) (Matrix_2x2 1 0 1 0) Zero tracking_filter =
       Inr (tracking_filter\<lparr>m_x := Matrix_2x1 4 3, m_P := Matrix_2x2 (- 6) (- 3) (- 3) 0\<rparr>)"
proof (intro exI conjI)
  let ?minv = "\<lambda>S :: (2, 2) mat. if S = Matrix_2x2 2 2 2 2 then Identity else (THE T. is_inverse S T)"
  show "computes_inverse ?minv"
    unfolding computes_inverse_def
    by (auto simp: singular_2x2 intro: the_equality is_inverse_unique)
  show S: "innovation_covariance (Matrix_2x2 1 0 1 0) Zero tracking_filter = Matrix_2x2 2 2 2 2"
    by (simp add: innovation_covariance_def tracking_filter_def Kalman_filter_def eval_simps)
  show "\<forall>T. \<not> is_inverse (Matrix_2x2 2 2 2 2) T"
    by (simp add: singular_2x2)
  have K: "kalman_gain ?minv (Matrix_2x2 1 0 1 0) Zero tracking_filter = Matrix_2x2 2 2 1 1"
    unfolding kalman_gain_def S
    by (simp add: mat_mul_Identity_right) (simp add: tracking_filter_def Kalman_filter_def eval_simps)
  show "Update ?minv (Matrix_2x1 1 1) (Matrix_2x2 1 0 1 0) Zero tracking_filter =
       Inr (tracking_filter\<lparr>m_x := Matrix_2x1 4 3, m_P := Matrix_2x2 (- 6) (- 3) (- 3) 0\<rparr>)"
    unfolding Update_eq K
    by (simp add: innovation_def tracking_filter_def Kalman_filter_def eval_simps)
qed

section \<open>The claims\<close>

text \<open>
  C1. The specification says that \<^verbatim>\<open>Update\<close>, when the innovation covariance \<open>S\<close> is
  singular, fails with a numerical error and leaves \<open>x\<close> and \<open>P\<close> unchanged. The source has no such
  error: \<^verbatim>\<open>Update\<close> tests nothing about \<open>S\<close>, calls Eigen's unchecked
  \<^verbatim>\<open>inverse()\<close> and assigns \<open>x\<close> and \<open>P\<close> in every case. Here the tracking
  filter gets the observation \<open>H = [0 0]\<close>, \<open>R = 0\<close>: \<open>S\<close> is the zero matrix, and the
  call returns normally.
\<close>

theorem Update_singular_returns:
  "innovation_covariance (Matrix_1x2 0 0) (Matrix_1x1 0) tracking_filter = Zero \<and>
   \<not> isl (Update inverse_1x1 (Matrix_1x1 1) (Matrix_1x2 0 0) (Matrix_1x1 0) tracking_filter)"
  by (simp add: Update_eq innovation_covariance_def tracking_filter_def Kalman_filter_def eval_simps)

text \<open>
  C1, as the code has it: for every filter state, every observation and every inverse
  routine, with \<open>S\<close> singular or not, \<^verbatim>\<open>Update\<close> returns normally and has assigned
  \<open>x + K y\<close> to the state and \<open>(I - K H) P\<close> to the covariance, where \<open>K = P H\<^sup>T M\<close>
  and \<open>M\<close> is whatever the inverse routine returned for \<open>S\<close>. So \<open>x\<close> and \<open>P\<close> need
  not stay as they were when \<open>S\<close> is singular (\<open>Update_singular_can_change_state\<close>).
\<close>

theorem Update_never_throws:
  "\<exists>kf'. Update minv z H R kf = Inr kf' \<and>
     (let y = mat_sub z (mat_mul H (m_x kf));
          S = mat_add (mat_mul (mat_mul H (m_P kf)) (transpose_mat H)) R;
          M = minv S;
          K = mat_mul (mat_mul (m_P kf) (transpose_mat H)) M
      in m_x kf' = mat_add (m_x kf) (mat_mul K y) \<and>
         m_P kf' = mat_mul (mat_sub Identity (mat_mul K H)) (m_P kf) \<and>
         m_last_timestamp kf' = m_last_timestamp kf)"
  by (simp add: Update_def Let_def)

text \<open>
  C2. For every filter state and every observation \<open>(z, H, R)\<close> whose innovation
  covariance \<open>S = H P H\<^sup>T + R\<close> has an inverse \<open>S_inverse\<close>, and an inverse routine that
  honours its contract, \<^verbatim>\<open>Update\<close> returns the filter with the state \<open>x + K y\<close> and
  the covariance \<open>(I - K H) P\<close>, where \<open>y = z - H x\<close> and \<open>K = P H\<^sup>T S_inverse\<close>.
\<close>

theorem Update_measurement_update:
  assumes "computes_inverse minv"
    and "is_inverse (mat_add (mat_mul (mat_mul H (m_P kf)) (transpose_mat H)) R) S_inverse"
  shows "Update minv z H R kf =
     (let y = mat_sub z (mat_mul H (m_x kf));
          K = mat_mul (mat_mul (m_P kf) (transpose_mat H)) S_inverse
      in Inr (kf\<lparr>m_x := mat_add (m_x kf) (mat_mul K y),
                 m_P := mat_mul (mat_sub Identity (mat_mul K H)) (m_P kf)\<rparr>))"
proof -
  have "minv (mat_add (mat_mul (mat_mul H (m_P kf)) (transpose_mat H)) R) = S_inverse"
    using assms by (simp add: computes_inverse_def)
  then show ?thesis
    by (simp add: Update_def Let_def)
qed

text \<open>
  C2 at a concrete input. The tracking filter observes its position: \<open>z = 3\<close>, \<open>H = [1 0]\<close>, \<open>R = 1\<close>. Then
  \<open>S = 3\<close>, \<open>K = (2/3, 1/3)\<close>, and the update gives \<open>x = (2, 2)\<close> and
  \<open>P = [[2/3, 1/3], [1/3, 5/3]]\<close>.
\<close>

theorem Update_measurement_update_witness:
  "computes_inverse inverse_1x1 \<and>
   is_inverse (mat_add (mat_mul (mat_mul (Matrix_1x2 1 0) (m_P tracking_filter))
                                (transpose_mat (Matrix_1x2 1 0))) (Matrix_1x1 1))
              (Matrix_1x1 (1 / 3)) \<and>
   Update inverse_1x1 (Matrix_1x1 3) (Matrix_1x2 1 0) (Matrix_1x1 1) tracking_filter =
     Inr (tracking_filter\<lparr>m_x := Matrix_2x1 2 2, m_P := Matrix_2x2 (2 / 3) (1 / 3) (1 / 3) (5 / 3)\<rparr>)"
proof -
  have inv: "is_inverse (mat_add (mat_mul (mat_mul (Matrix_1x2 1 0) (m_P tracking_filter))
                                (transpose_mat (Matrix_1x2 1 0))) (Matrix_1x1 1))
              (Matrix_1x1 (1 / 3))"
    by (simp add: is_inverse_def tracking_filter_def Kalman_filter_def eval_simps)
  show ?thesis
    using Update_measurement_update [OF computes_inverse_1x1 inv, of "Matrix_1x1 3"]
      inv computes_inverse_1x1
    by (simp add: tracking_filter_def Kalman_filter_def Let_def eval_simps)
qed

text \<open>
  C3. For every filter state, every control input \<open>u\<close> and every timestamp \<open>t\<close>, earlier
  than the last timestamp or not, \<^verbatim>\<open>Predict(u, t)\<close> returns normally; with
  \<open>dt = t - last_timestamp\<close> it sets the last timestamp to \<open>t\<close>, the state to
  \<open>A(dt) x + B(dt) u\<close> and the covariance to \<open>A(dt) P A(dt)\<^sup>T + Q\<close>, and leaves the
  other members alone.
\<close>

theorem Predict_time_update:
  "Predict u t kf =
     (let dt = t - m_last_timestamp kf; A = m_A kf dt; B = m_B kf dt
      in Inr (kf\<lparr>m_last_timestamp := t,
                 m_x := mat_add (mat_mul A (m_x kf)) (mat_mul B u),
                 m_P := mat_add (mat_mul (mat_mul A (m_P kf)) (transpose_mat A)) (m_Q kf)\<rparr>))"
  by (simp add: Predict_def Let_def)

text \<open>
  C4. The specification says that, with \<open>A(0) = I\<close> and \<open>B(0) = 0\<close>, a second
  \<^verbatim>\<open>Predict\<close> at the same timestamp leaves \<open>x\<close> and \<open>P\<close> unchanged. \<^verbatim>\<open>Predict\<close> adds the constant \<open>Q\<close> to
  the covariance whatever the time step is (the class "assumes constant process noise"),
  so the second call changes \<open>P\<close>: in the scalar scenario from 1.01 to 1.02.
\<close>

theorem Predict_twice_changes_P:
  "m_A scalar_filter 0 = Identity \<and> m_B scalar_filter 0 = Zero \<and>
   Predict_t 1 scalar_filter = Inr scalar_filter_predicted \<and>
   Predict_t 1 scalar_filter_predicted = Inr (scalar_filter_predicted\<lparr>m_P := Matrix_1x1 1.02\<rparr>) \<and>
   m_P scalar_filter_predicted = Matrix_1x1 1.01 \<and>
   Matrix_1x1 1.02 \<noteq> Matrix_1x1 1.01"
  by (simp add: Predict_t_def Predict_eq scalar_filter_predicted_def scalar_filter_def
      Kalman_filter_def eval_simps)

text \<open>
  C4, as the code has it: with \<open>A(0) = I\<close> and \<open>B(0) = 0\<close>, after a \<^verbatim>\<open>Predict\<close> at
  \<open>t\<close> a second \<^verbatim>\<open>Predict\<close> at the same \<open>t\<close>, with any control input, leaves \<open>x\<close>
  unchanged and adds \<open>Q\<close> to \<open>P\<close>; \<open>P\<close> is unchanged exactly when \<open>Q = 0\<close>.
\<close>

theorem Predict_twice:
  assumes "m_A kf 0 = Identity" and "m_B kf 0 = Zero"
  shows "\<exists>kf1 kf2. Predict u1 t kf = Inr kf1 \<and> Predict u2 t kf1 = Inr kf2 \<and>
     m_x kf2 = m_x kf1 \<and> m_P kf2 = mat_add (m_P kf1) (m_Q kf) \<and>
     (m_P kf2 = m_P kf1 \<longleftrightarrow> m_Q kf = Zero)"
  using assms
  by (simp add: Predict_eq mat_mul_Identity_left mat_mul_Identity_right transpose_mat_Identity
      mat_mul_Zero_left mat_add_Zero_right mat_add_eq_left_iff)

text \<open>
  C4 at a concrete input. The resting filter, predicted twice at \<open>t = 1\<close> with the inputs 2 and 5: the state
  stays \<open>(0, 1)\<close>, the covariance goes from \<open>[[2.01, 1], [1, 2.01]]\<close> to
  \<open>[[2.02, 1], [1, 2.02]]\<close>.
\<close>

theorem Predict_twice_witness:
  "m_A resting_filter 0 = Identity \<and> m_B resting_filter 0 = Zero \<and>
   (\<exists>kf1 kf2. Predict (Matrix_1x1 2) 1 resting_filter = Inr kf1 \<and>
      Predict (Matrix_1x1 5) 1 kf1 = Inr kf2 \<and>
      m_x kf1 = Matrix_2x1 0 1 \<and> m_x kf2 = Matrix_2x1 0 1 \<and>
      m_P kf1 = Matrix_2x2 (201 / 100) 1 1 (201 / 100) \<and>
      m_P kf2 = Matrix_2x2 (202 / 100) 1 1 (202 / 100))"
proof -
  have A: "m_A resting_filter 0 = Identity" and B: "m_B resting_filter 0 = Zero"
    by (simp_all add: resting_filter_def Kalman_filter_def)
  have 1: "Predict (Matrix_1x1 2) 1 resting_filter =
      Inr (resting_filter\<lparr>m_last_timestamp := 1, m_x := Matrix_2x1 0 1,
                           m_P := Matrix_2x2 (201 / 100) 1 1 (201 / 100)\<rparr>)"
    by (simp add: Predict_eq resting_filter_def Kalman_filter_def eval_simps)
  from Predict_twice [OF A B, of "Matrix_1x1 2" 1 "Matrix_1x1 5"]
  obtain kf1 kf2 where kf1: "Predict (Matrix_1x1 2) 1 resting_filter = Inr kf1"
    and kf2: "Predict (Matrix_1x1 5) 1 kf1 = Inr kf2"
    and x: "m_x kf2 = m_x kf1" and P: "m_P kf2 = mat_add (m_P kf1) (m_Q resting_filter)"
    by blast
  from kf1 have x1: "m_x kf1 = Matrix_2x1 0 1"
    and P1: "m_P kf1 = Matrix_2x2 (201 / 100) 1 1 (201 / 100)"
    unfolding 1 by auto
  have "m_P kf2 = Matrix_2x2 (202 / 100) 1 1 (202 / 100)"
    unfolding P P1 by (simp add: resting_filter_def Kalman_filter_def eval_simps)
  with A B kf1 kf2 x x1 P1 show ?thesis
    by auto
qed

text \<open>
  C5. The scalar scenario, for every inverse routine that honours its contract:
  \<^verbatim>\<open>Predict(1)\<close> gives \<open>x = 0\<close> and \<open>P = 1.01\<close>; then \<^verbatim>\<open>Update(1, 1, 1)\<close> has the
  gain \<open>K = 1.01 / 2.01\<close> and gives \<open>x = 1.01 / 2.01\<close> and \<open>P = (1 - K) 1.01\<close>; both
  are within 0.0001 of 0.5025.
\<close>

theorem scalar_scenario:
  assumes "computes_inverse minv"
  shows "Predict_t 1 scalar_filter = Inr scalar_filter_predicted \<and>
   m_x scalar_filter_predicted = Matrix_1x1 0 \<and> m_P scalar_filter_predicted = Matrix_1x1 1.01 \<and>
   kalman_gain minv (Matrix_1x1 1) (Matrix_1x1 1) scalar_filter_predicted = Matrix_1x1 (1.01 / 2.01) \<and>
   Update_scalar minv 1 (Matrix_1x1 1) 1 scalar_filter_predicted =
     Inr (scalar_filter_predicted\<lparr>m_x := Matrix_1x1 (1.01 / 2.01),
                                  m_P := Matrix_1x1 ((1 - 1.01 / 2.01) * 1.01)\<rparr>) \<and>
   \<bar>1.01 / 2.01 - 0.5025\<bar> < (0.0001 :: real) \<and>
   \<bar>(1 - 1.01 / 2.01) * 1.01 - 0.5025\<bar> < (0.0001 :: real)"
proof -
  have S: "innovation_covariance (Matrix_1x1 1) (Matrix_1x1 1) scalar_filter_predicted = Matrix_1x1 2.01"
    by (simp add: innovation_covariance_def scalar_filter_predicted_def scalar_filter_def
        Kalman_filter_def eval_simps)
  have "is_inverse (Matrix_1x1 2.01) (Matrix_1x1 (1 / 2.01))"
    by (simp add: is_inverse_def eval_simps)
  then have inv: "minv (Matrix_1x1 2.01) = Matrix_1x1 (1 / 2.01)"
    using assms by (simp add: computes_inverse_def)
  have K: "kalman_gain minv (Matrix_1x1 1) (Matrix_1x1 1) scalar_filter_predicted = Matrix_1x1 (1.01 / 2.01)"
    unfolding kalman_gain_def S inv
    by (simp add: scalar_filter_predicted_def scalar_filter_def Kalman_filter_def eval_simps)
  have P: "Predict_t 1 scalar_filter = Inr scalar_filter_predicted"
    by (simp add: Predict_t_def Predict_eq scalar_filter_predicted_def scalar_filter_def
        Kalman_filter_def eval_simps)
  have U: "Update_scalar minv 1 (Matrix_1x1 1) 1 scalar_filter_predicted =
     Inr (scalar_filter_predicted\<lparr>m_x := Matrix_1x1 (1.01 / 2.01),
                                  m_P := Matrix_1x1 ((1 - 1.01 / 2.01) * 1.01)\<rparr>)"
    unfolding Update_scalar_def Update_eq K
    by (simp add: innovation_def scalar_filter_predicted_def scalar_filter_def
        Kalman_filter_def eval_simps)
  show ?thesis
    by (simp add: P U K) (simp add: scalar_filter_predicted_def)
qed

text \<open>
  C5 with the reciprocal as the 1x1 inverse: the gain, the state and the covariance are
  all 101/201.
\<close>

theorem scalar_scenario_witness:
  "computes_inverse inverse_1x1 \<and>
   Predict_t 1 scalar_filter = Inr scalar_filter_predicted \<and>
   kalman_gain inverse_1x1 (Matrix_1x1 1) (Matrix_1x1 1) scalar_filter_predicted = Matrix_1x1 (101 / 201) \<and>
   Update_scalar inverse_1x1 1 (Matrix_1x1 1) 1 scalar_filter_predicted =
     Inr (scalar_filter_predicted\<lparr>m_x := Matrix_1x1 (101 / 201), m_P := Matrix_1x1 (101 / 201)\<rparr>)"
  using scalar_scenario [OF computes_inverse_1x1] computes_inverse_1x1
  by simp

text \<open>
  C6. Where \<^verbatim>\<open>Set_state_estimate\<close> exists, that is for the filters with \<open>N = 1\<close>,
  \<^verbatim>\<open>Get_state_estimate\<close> returns exactly the matrix that was set. For \<open>N > 1\<close> the
  member takes an NxN matrix, cannot be instantiated, and no state vector can be set.
\<close>

theorem Set_Get_state_estimate:
  "Get_state_estimate (Set_state_estimate x1 kf) = x1"
  by (simp add: Get_state_estimate_def Set_state_estimate_def)

text \<open>
  C7. The covariance stays symmetric and positive semi-definite through every call. From
  a filter that satisfies the covariance invariant, \<^verbatim>\<open>Predict\<close> with any input and
  timestamp returns normally with a filter that satisfies it again, and so does
  \<^verbatim>\<open>Update\<close> with an observation of any dimension \<open>U\<close> that is well-conditioned:
  \<open>R\<close> symmetric and positive semi-definite, \<open>S\<close> invertible, and the inverse routine
  returning its inverse. The invariant is the hypothesis of the next call again, so it
  holds after every finite sequence of such calls, each \<^verbatim>\<open>Update\<close> with a dimension of
  its own.
\<close>

theorem covariance_symmetric_psd:
  fixes kf :: "('n::finite, 'm::finite) Kalman_filter" and H :: "('u::finite, 'n) mat"
  assumes "covariance_invariant kf"
  shows "(\<exists>kf'. Predict u t kf = Inr kf' \<and> covariance_invariant kf') \<and>
     (symmetric R \<and> positive_semidefinite R \<and>
      is_inverse (innovation_covariance H R kf) (minv (innovation_covariance H R kf)) \<longrightarrow>
      (\<exists>kf'. Update minv z H R kf = Inr kf' \<and> covariance_invariant kf'))"
proof (intro conjI impI)
  obtain kf' where p: "Predict u t kf = Inr kf'"
    by (simp add: Predict_eq)
  with assms Predict_covariance [OF _ _ _ _ p]
  show "\<exists>kf'. Predict u t kf = Inr kf' \<and> covariance_invariant kf'"
    by (simp add: covariance_invariant_def)
next
  assume wc: "symmetric R \<and> positive_semidefinite R \<and>
      is_inverse (innovation_covariance H R kf) (minv (innovation_covariance H R kf))"
  obtain kf' where u: "Update minv z H R kf = Inr kf'"
    by (simp add: Update_eq)
  with assms wc Update_covariance [OF _ _ _ _ _ u]
  show "\<exists>kf'. Update minv z H R kf = Inr kf' \<and> covariance_invariant kf'"
    by (simp add: covariance_invariant_def)
qed

text \<open>
  C7 at a concrete input, with observations of two dimensions. The tracking filter is
  updated with both coordinates (\<open>U = 2\<close>, \<open>z = (1, 2)\<close>, \<open>H = I\<close>, \<open>R = I\<close>, where
  \<open>S = [[3, 1], [1, 3]]\<close>), predicted to \<open>t = 1\<close> with the input 2, and updated with
  its position (\<open>U = 1\<close>, \<open>z = 3\<close>, \<open>H = [1 0]\<close>, \<open>R = 1\<close>, where \<open>S = 2.51\<close>).
\<close>

theorem covariance_symmetric_psd_witness:
  "covariance_invariant tracking_filter \<and>
   (\<exists>kf1 kf2 kf3.
      Update inverse_2x2 (Matrix_2x1 1 2) (Matrix_2x2 1 0 0 1) (Matrix_2x2 1 0 0 1) tracking_filter = Inr kf1 \<and>
      Predict (Matrix_1x1 2) 1 kf1 = Inr kf2 \<and>
      Update inverse_1x1 (Matrix_1x1 3) (Matrix_1x2 1 0) (Matrix_1x1 1) kf2 = Inr kf3 \<and>
      m_P kf1 = Matrix_2x2 (5 / 8) (1 / 8) (1 / 8) (5 / 8) \<and>
      m_P kf2 = Matrix_2x2 (151 / 100) (3 / 4) (3 / 4) (127 / 200) \<and>
      covariance_invariant kf1 \<and> covariance_invariant kf2 \<and> covariance_invariant kf3)"
proof -
  let ?H2 = "Matrix_2x2 1 0 0 1" and ?z2 = "Matrix_2x1 1 2"
  let ?H1 = "Matrix_1x2 1 0" and ?R1 = "Matrix_1x1 1" and ?z1 = "Matrix_1x1 3"
  let ?kf1 = "tracking_filter\<lparr>m_x := Matrix_2x1 (3 / 4) (7 / 4),
                               m_P := Matrix_2x2 (5 / 8) (1 / 8) (1 / 8) (5 / 8)\<rparr>"
  let ?kf2 = "tracking_filter\<lparr>m_last_timestamp := 1, m_x := Matrix_2x1 (7 / 2) (15 / 4),
                               m_P := Matrix_2x2 (151 / 100) (3 / 4) (3 / 4) (127 / 200)\<rparr>"
  have P: "m_P tracking_filter = Matrix_2x2 2 1 1 2"
    and Q: "m_Q tracking_filter = Matrix_2x2 (1 / 100) 0 0 (1 / 100)"
    by (simp_all add: tracking_filter_def Kalman_filter_def)
  have inv0: "covariance_invariant tracking_filter"
    unfolding covariance_invariant_def P Q
    using positive_semidefinite_P0 positive_semidefinite_Q0
    by (simp add: symmetric_def eval_simps)
  have R2: "symmetric ?H2" "positive_semidefinite ?H2"
    by (simp_all add: positive_semidefinite_unit_2x2) (simp add: symmetric_def eval_simps)
  have S0: "innovation_covariance ?H2 ?H2 tracking_filter = Matrix_2x2 3 1 1 3"
    by (simp add: innovation_covariance_def tracking_filter_def Kalman_filter_def eval_simps)
  have i0: "is_inverse (Matrix_2x2 3 1 1 3) (inverse_2x2 (Matrix_2x2 3 1 1 3))"
    by (rule is_inverse_2x2) (simp add: Matrix_2x2_def)
  have T0: "inverse_2x2 (Matrix_2x2 3 1 1 3) = Matrix_2x2 (3 / 8) (- 1 / 8) (- 1 / 8) (3 / 8)"
    by (simp add: inverse_2x2_def Let_def eval_simps)
  have u1: "Update inverse_2x2 ?z2 ?H2 ?H2 tracking_filter = Inr ?kf1"
    by (simp add: Update_eq kalman_gain_def innovation_def S0 T0)
       (simp add: tracking_filter_def Kalman_filter_def eval_simps)
  have p2: "Predict (Matrix_1x1 2) 1 ?kf1 = Inr ?kf2"
    by (simp add: Predict_eq tracking_filter_def Kalman_filter_def eval_simps)
  have S2: "innovation_covariance ?H1 ?R1 ?kf2 = Matrix_1x1 (251 / 100)"
    by (simp add: innovation_covariance_def eval_simps)
  have i2: "is_inverse (Matrix_1x1 (251 / 100)) (inverse_1x1 (Matrix_1x1 (251 / 100)))"
    by (simp add: is_inverse_def inverse_1x1_def eval_simps)
  have R1: "symmetric ?R1" "positive_semidefinite ?R1"
    by (simp_all add: positive_semidefinite_R0) (simp add: symmetric_def eval_simps)
  from covariance_symmetric_psd
    [OF inv0, where R = ?H2 and H = ?H2 and minv = inverse_2x2 and z = ?z2, THEN conjunct2]
  have inv1: "covariance_invariant ?kf1"
    using R2 i0 by (simp add: S0 u1)
  from covariance_symmetric_psd [OF inv1, where u = "Matrix_1x1 2" and t = 1, THEN conjunct1]
  have inv2: "covariance_invariant ?kf2"
    by (simp add: p2)
  from covariance_symmetric_psd
    [OF inv2, where R = ?R1 and H = ?H1 and minv = inverse_1x1 and z = ?z1, THEN conjunct2]
  obtain kf3 where "Update inverse_1x1 ?z1 ?H1 ?R1 ?kf2 = Inr kf3" "covariance_invariant kf3"
    using R1 i2 by (auto simp: S2)
  with inv0 inv1 inv2 u1 p2 show ?thesis
    by (intro conjI exI [of _ ?kf1] exI [of _ ?kf2] exI [of _ kf3]) simp_all
qed

text \<open>
  C8. \<^verbatim>\<open>Update\<close>, in both overloads, \<^verbatim>\<open>Set_state_estimate\<close> and
  \<^verbatim>\<open>Set_error_covariance\<close> leave the last timestamp as it was.
\<close>

theorem last_timestamp_frame:
  fixes kf :: "('n::finite, 'm::finite) Kalman_filter"
    and kf1 :: "(1, 'k::finite) Kalman_filter"
    and kf2 :: "('a::finite, 'b::finite) Kalman_filter"
    and H :: "('u::finite, 'n) mat"
  shows "(\<exists>kf'. Update minv z H R kf = Inr kf' \<and> m_last_timestamp kf' = m_last_timestamp kf) \<and>
   (\<exists>kf'. Update_scalar minv1 z1 H1 R1 kf = Inr kf' \<and> m_last_timestamp kf' = m_last_timestamp kf) \<and>
   m_last_timestamp (Set_state_estimate x kf1) = m_last_timestamp kf1 \<and>
   m_last_timestamp (Set_error_covariance p kf2) = m_last_timestamp kf2"
  by (simp add: Update_scalar_def Update_eq Set_state_estimate_def Set_error_covariance_def)

text \<open>
  C9. The scalar overload of \<^verbatim>\<open>Update\<close> gives the result of the generic one called
  with \<open>z\<close> and \<open>R\<close> as 1x1 matrices: the same \<open>Inr\<close> filter, so the same \<open>x\<close>, \<open>P\<close>
  and last timestamp. Read from the generic side: for any 1x1 matrices \<open>Z\<close> and \<open>R'\<close>,
  the generic call is the scalar call on their coefficients.
\<close>

theorem Update_scalar_is_Update:
  "Update_scalar minv z H R kf = Update minv (Matrix_1x1 z) H (Matrix_1x1 R) kf \<and>
   Update_scalar minv (Z 1 1) H (R' 1 1) kf = Update minv Z H R' kf"
  by (simp add: Update_scalar_def Matrix_1x1_coeff)

text \<open>
  C10. When the observation is the predicted one, \<open>z = H x\<close>, and \<open>S\<close> is invertible,
  \<^verbatim>\<open>Update\<close> leaves the state (and everything but \<open>P\<close>) unchanged and sets \<open>P\<close> to
  \<open>(I - K H) P\<close> with \<open>K = P H\<^sup>T S_inverse\<close>.
\<close>

theorem Update_zero_innovation:
  assumes "computes_inverse minv"
    and "is_inverse (mat_add (mat_mul (mat_mul H (m_P kf)) (transpose_mat H)) R) S_inverse"
    and "z = mat_mul H (m_x kf)"
  shows "Update minv z H R kf =
     (let K = mat_mul (mat_mul (m_P kf) (transpose_mat H)) S_inverse
      in Inr (kf\<lparr>m_P := mat_mul (mat_sub Identity (mat_mul K H)) (m_P kf)\<rparr>))"
proof -
  have "minv (mat_add (mat_mul (mat_mul H (m_P kf)) (transpose_mat H)) R) = S_inverse"
    using assms by (simp add: computes_inverse_def)
  then show ?thesis
    using assms(3)
    by (simp add: Update_def Let_def mat_sub_self mat_mul_Zero_right mat_add_Zero_right)
qed

text \<open>
  C10 at a concrete input. The tracking filter has \<open>x = (0, 1)\<close>; the position observation \<open>z = 0\<close> matches it.
  The state stays, the covariance goes from \<open>[[2, 1], [1, 2]]\<close> to
  \<open>[[2/3, 1/3], [1/3, 5/3]]\<close>.
\<close>

theorem Update_zero_innovation_witness:
  "computes_inverse inverse_1x1 \<and>
   is_inverse (mat_add (mat_mul (mat_mul (Matrix_1x2 1 0) (m_P tracking_filter))
                                (transpose_mat (Matrix_1x2 1 0))) (Matrix_1x1 1))
              (Matrix_1x1 (1 / 3)) \<and>
   Matrix_1x1 0 = mat_mul (Matrix_1x2 1 0) (m_x tracking_filter) \<and>
   Update inverse_1x1 (Matrix_1x1 0) (Matrix_1x2 1 0) (Matrix_1x1 1) tracking_filter =
     Inr (tracking_filter\<lparr>m_P := Matrix_2x2 (2 / 3) (1 / 3) (1 / 3) (5 / 3)\<rparr>) \<and>
   m_P tracking_filter = Matrix_2x2 2 1 1 2"
proof -
  have inv: "is_inverse (mat_add (mat_mul (mat_mul (Matrix_1x2 1 0) (m_P tracking_filter))
                                (transpose_mat (Matrix_1x2 1 0))) (Matrix_1x1 1))
              (Matrix_1x1 (1 / 3))"
    by (simp add: is_inverse_def tracking_filter_def Kalman_filter_def eval_simps)
  have z: "Matrix_1x1 0 = mat_mul (Matrix_1x2 1 0) (m_x tracking_filter)"
    by (simp add: tracking_filter_def Kalman_filter_def eval_simps)
  show ?thesis
    using Update_zero_innovation [OF computes_inverse_1x1 inv z] inv z computes_inverse_1x1
    by (simp add: tracking_filter_def Kalman_filter_def Let_def eval_simps)
qed

end
